theory Spec2Isabelle
  imports
    Main
    "HOL-Library.Char_ord"
    "HOL-Library.List_Lexorder"
    "HOL-Library.AList"
    "HOL-Library.Multiset"
begin

text \<open>
  A shallow embedding of \<^verbatim>\<open>simplui/task.py\<close>: the structural utilities \<^verbatim>\<open>flatten\<close> and
  \<^verbatim>\<open>getpaths\<close>, the completeness protocol (\<^verbatim>\<open>Task.complete\<close>, \<^verbatim>\<open>WrapperTask.complete\<close>,
  \<^verbatim>\<open>bulk_complete\<close>), the \<^verbatim>\<open>Flow\<close> container, the derivation of the task id and the
  equality and hash of task instances. The definitions come first, each after the source
  it translates; the properties follow.
\<close>

section \<open>Exceptions\<close>

text \<open>
  Python exceptions are values: a function that can raise returns \<open>error + 'a\<close>, with
  \<open>Inl\<close> the exception. An exception is identified by its class. The classes below are the
  builtin ones that \<^verbatim>\<open>simplui/task.py\<close> raises or catches, and the one it declares itself:
  \<^verbatim>\<open>class BulkCompleteNotImplementedError(NotImplementedError)\<close>.
\<close>

datatype exc_class =
    BaseException
  | Exception
  | TypeError
  | ValueError
  | AttributeError
  | LookupError
  | KeyError
  | RuntimeError
  | RecursionError
  | NotImplementedError
  | BulkCompleteNotImplementedError

type_synonym error = exc_class

text \<open>The method resolution order of each class: the class itself, then its bases.\<close>

fun bases :: "exc_class \<Rightarrow> exc_class list" where
  "bases BaseException = [BaseException]"
| "bases Exception = [Exception, BaseException]"
| "bases TypeError = [TypeError, Exception, BaseException]"
| "bases ValueError = [ValueError, Exception, BaseException]"
| "bases AttributeError = [AttributeError, Exception, BaseException]"
| "bases LookupError = [LookupError, Exception, BaseException]"
| "bases KeyError = [KeyError, LookupError, Exception, BaseException]"
| "bases RuntimeError = [RuntimeError, Exception, BaseException]"
| "bases RecursionError = [RecursionError, RuntimeError, Exception, BaseException]"
| "bases NotImplementedError = [NotImplementedError, RuntimeError, Exception, BaseException]"
| "bases BulkCompleteNotImplementedError =
     [BulkCompleteNotImplementedError, NotImplementedError, RuntimeError, Exception, BaseException]"

text \<open>\<open>issubclass c d\<close>: a handler \<^verbatim>\<open>except d\<close> catches an exception of class \<open>c\<close>.\<close>

definition issubclass :: "exc_class \<Rightarrow> exc_class \<Rightarrow> bool" where
  "issubclass c d = (d \<in> set (bases c))"

section \<open>Nested structures: flatten and getpaths\<close>

text \<open>
  The objects that \<^verbatim>\<open>flatten\<close> and \<^verbatim>\<open>getpaths\<close> tell apart by their runtime type tests:
  \<^verbatim>\<open>None\<close>, a \<^verbatim>\<open>str\<close>, a \<^verbatim>\<open>Task\<close> instance, an instance of \<^verbatim>\<open>dict\<close> or of a subclass (its
  items in iteration order, with its class), an instance of \<^verbatim>\<open>list\<close> or \<^verbatim>\<open>tuple\<close> or of a
  subclass (its elements, with its class), any other iterable (a set, a deque, a
  generator, ...: its elements in iteration order), and any other object, which is not
  iterable (a number, a target, ...). Values of the datatype are finite trees, so the
  structures are acyclic.

  The classes are those of the standard library that differ in what their constructor
  does with the one argument that \<^verbatim>\<open>getpaths\<close> passes it. \<^verbatim>\<open>dict\<close>, \<^verbatim>\<open>OrderedDict\<close>, \<^verbatim>\<open>list\<close>
  and \<^verbatim>\<open>tuple\<close> take an iterable and consume it. \<^verbatim>\<open>defaultdict\<close> takes the default factory
  first and raises \<^verbatim>\<open>TypeError\<close> on anything that is neither callable nor \<^verbatim>\<open>None\<close>. A class
  made by \<^verbatim>\<open>namedtuple\<close> takes one argument for each field: with one field it stores
  the argument as it is, with any other number of fields it raises \<^verbatim>\<open>TypeError\<close>.
\<close>

datatype dict_kind = PlainDict | OrderedDict | DefaultDict

datatype seq_kind = ListSeq | TupleSeq | NamedTuple

datatype ('k, 't, 'a) pyobj =
    PyNone
  | PyStr string
  | PyTask 't
  | PyDict dict_kind "('k \<times> ('k, 't, 'a) pyobj) list"
  | PySeq seq_kind "('k, 't, 'a) pyobj list"
  | PyIter "('k, 't, 'a) pyobj list"
  | PyAtom 'a

text \<open>
  \<^verbatim>\<open>
  def flatten(struct):
      if struct is None:
          return []
      flat = []
      if isinstance(struct, dict):
          for _, result in struct.items():
              flat += flatten(result)
          return flat
      if isinstance(struct, str):
          return [struct]
      try:
          iterator = iter(struct)
      except TypeError:
          return [struct]
      for result in iterator:
          flat += flatten(result)
      return flat
  \<close>
  The two loops are \<open>flatten_items\<close> and \<open>flatten_iter\<close>, with the accumulator \<open>flat\<close>.
  A task and an atom are not iterable: \<^verbatim>\<open>iter\<close> raises and the object is returned alone.
\<close>

fun flatten :: "('k, 't, 'a) pyobj \<Rightarrow> ('k, 't, 'a) pyobj list"
  and flatten_items ::
    "('k, 't, 'a) pyobj list \<Rightarrow> ('k \<times> ('k, 't, 'a) pyobj) list \<Rightarrow> ('k, 't, 'a) pyobj list"
  and flatten_iter ::
    "('k, 't, 'a) pyobj list \<Rightarrow> ('k, 't, 'a) pyobj list \<Rightarrow> ('k, 't, 'a) pyobj list"
where
  "flatten PyNone = []"
| "flatten (PyDict c kvs) = flatten_items [] kvs"
| "flatten (PyStr s) = [PyStr s]"
| "flatten (PyTask t) = [PyTask t]"
| "flatten (PyAtom a) = [PyAtom a]"
| "flatten (PySeq q xs) = flatten_iter [] xs"
| "flatten (PyIter xs) = flatten_iter [] xs"
| "flatten_items flat [] = flat"
| "flatten_items flat ((k, result) # kvs) = flatten_items (flat @ flatten result) kvs"
| "flatten_iter flat [] = flat"
| "flatten_iter flat (result # rs) = flatten_iter (flat @ flatten result) rs"









section \<open>Completeness\<close>

text \<open>
  A call of \<^verbatim>\<open>complete()\<close> returns a value or raises, and may call \<^verbatim>\<open>warnings.warn\<close>: its
  model returns the result together with the warnings the call emitted, in order.
\<close>

datatype warning = NoOutputsWarning

text \<open>
  \<^verbatim>\<open>
  def complete(self):
      outputs = flatten(self.output())
      if len(outputs) == 0:
          warnings.warn(
              "Task %r without outputs has no custom complete() method" % self,
              stacklevel=2
          )
          return False
      return all(map(lambda output: output.exists(), outputs))
  \<close>
  \<open>ex a\<close> is the \<^verbatim>\<open>exists()\<close> method of the object \<open>a\<close>, \<open>None\<close> when \<open>a\<close> has no such
  method; a string and a task have none. \<^verbatim>\<open>all\<close> over the lazy \<^verbatim>\<open>map\<close> stops at the first
  output that does not exist.
\<close>

fun all_exists :: "('a \<Rightarrow> bool option) \<Rightarrow> ('k, 't, 'a) pyobj list \<Rightarrow> error + bool" where
  "all_exists ex [] = Inr True"
| "all_exists ex (PyAtom a # outputs) =
     (case ex a of
        None \<Rightarrow> Inl AttributeError
      | Some b \<Rightarrow> if b then all_exists ex outputs else Inr False)"
| "all_exists ex (x # outputs) = Inl AttributeError"

definition Task_complete ::
  "('t \<Rightarrow> ('k, 't, 'a) pyobj) \<Rightarrow> ('a \<Rightarrow> bool option) \<Rightarrow> 't \<Rightarrow> (error + bool) \<times> warning list"
where
  "Task_complete out ex self =
     (let outputs = flatten (out self) in
      if length outputs = 0 then (Inr False, [NoOutputsWarning])
      else (all_exists ex outputs, []))"

text \<open>An output handle: an object with an \<^verbatim>\<open>exists()\<close> method; and one that exists.\<close>

definition is_target :: "('a \<Rightarrow> bool option) \<Rightarrow> ('k, 't, 'a) pyobj \<Rightarrow> bool" where
  "is_target ex x = (case x of PyAtom a \<Rightarrow> ex a \<noteq> None | _ \<Rightarrow> False)"

definition target_exists :: "('a \<Rightarrow> bool option) \<Rightarrow> ('k, 't, 'a) pyobj \<Rightarrow> bool" where
  "target_exists ex x = (case x of PyAtom a \<Rightarrow> ex a = Some True | _ \<Rightarrow> False)"

text \<open>
  \<^verbatim>\<open>
  class WrapperTask(Task):
      def complete(self):
          return all(r.complete() for r in flatten(self.requires()))
  \<close>
  \<open>req\<close> is the \<^verbatim>\<open>requires()\<close> method and \<open>compl r\<close> the \<^verbatim>\<open>complete()\<close> method of the task
  \<open>r\<close>, whichever class defines it. An object that is not a task has no \<^verbatim>\<open>complete\<close>
  method. \<^verbatim>\<open>all\<close> stops at the first requirement that is not complete.
\<close>

fun all_complete ::
  "('t \<Rightarrow> (error + bool) \<times> warning list) \<Rightarrow> ('k, 't, 'a) pyobj list
    \<Rightarrow> (error + bool) \<times> warning list"
where
  "all_complete compl [] = (Inr True, [])"
| "all_complete compl (PyTask r # rs) =
     (case compl r of
        (Inl e, ws) \<Rightarrow> (Inl e, ws)
      | (Inr b, ws) \<Rightarrow>
          if b then (case all_complete compl rs of (res, ws') \<Rightarrow> (res, ws @ ws'))
          else (Inr False, ws))"
| "all_complete compl (x # rs) = (Inl AttributeError, [])"

definition WrapperTask_complete ::
  "('t \<Rightarrow> ('k, 't, 'a) pyobj) \<Rightarrow> ('t \<Rightarrow> (error + bool) \<times> warning list) \<Rightarrow> 't
    \<Rightarrow> (error + bool) \<times> warning list"
where
  "WrapperTask_complete req compl self = all_complete compl (flatten (req self))"

text \<open>
  A requirement that is a task whose \<^verbatim>\<open>complete()\<close> returns \<^verbatim>\<open>True\<close>; one whose
  \<^verbatim>\<open>complete()\<close> returns at all; and the warnings its \<^verbatim>\<open>complete()\<close> emits.
\<close>

definition task_complete ::
  "('t \<Rightarrow> (error + bool) \<times> warning list) \<Rightarrow> ('k, 't, 'a) pyobj \<Rightarrow> bool" where
  "task_complete compl x = (case x of PyTask t \<Rightarrow> fst (compl t) = Inr True | _ \<Rightarrow> False)"

definition task_returns ::
  "('t \<Rightarrow> (error + bool) \<times> warning list) \<Rightarrow> ('k, 't, 'a) pyobj \<Rightarrow> bool" where
  "task_returns compl x = (case x of PyTask t \<Rightarrow> (\<exists>b. fst (compl t) = Inr b) | _ \<Rightarrow> False)"

fun emitted_by ::
  "('t \<Rightarrow> (error + bool) \<times> warning list) \<Rightarrow> ('k, 't, 'a) pyobj \<Rightarrow> warning list" where
  "emitted_by compl (PyTask t) = snd (compl t)"
| "emitted_by compl x = []"

text \<open>
  An element of \<^verbatim>\<open>parameter_tuples\<close>, as the mixin tells them apart: a list, a tuple, a
  dict with string keys, or any other object. \<open>Call args kwargs\<close> is a call
  \<^verbatim>\<open>cls(*args, **kwargs)\<close> of the task class, which returns the instance or raises one of
  the construction errors.
\<close>

datatype 'v parameter_tuple =
    PTList "'v list"
  | PTTuple "'v list"
  | PTDict "(string \<times> 'v) list"
  | PTOther 'v

datatype 'v call_args = Call "'v list" "(string \<times> 'v) list"

text \<open>
  \<^verbatim>\<open>
  @classmethod
  def bulk_complete(cls, parameter_tuples):
      raise BulkCompleteNotImplementedError()
  \<close>
\<close>

definition Task_bulk_complete :: "'p list \<Rightarrow> error + 'p list" where
  "Task_bulk_complete parameter_tuples = Inl BulkCompleteNotImplementedError"

text \<open>
  \<^verbatim>\<open>
  class MixinNaiveBulkComplete:
      @classmethod
      def bulk_complete(cls, parameter_tuples):
          generated_tuples = []
          for parameter_tuple in parameter_tuples:
              if isinstance(parameter_tuple, (list, tuple)):
                  if cls(*parameter_tuple).complete():
                      generated_tuples.append(parameter_tuple)
              elif isinstance(parameter_tuple, dict):
                  if cls(**parameter_tuple).complete():
                      generated_tuples.append(parameter_tuple)
              else:
                  if cls(parameter_tuple).complete():
                      generated_tuples.append(parameter_tuple)
          return generated_tuples
  \<close>
  \<open>instantiate\<close> is the constructor call of the three branches; the loop threads
  \<open>generated_tuples\<close> and stops at the first exception.
\<close>

fun instantiate :: "('v call_args \<Rightarrow> error + 't) \<Rightarrow> 'v parameter_tuple \<Rightarrow> error + 't" where
  "instantiate cls (PTList vs) = cls (Call vs [])"
| "instantiate cls (PTTuple vs) = cls (Call vs [])"
| "instantiate cls (PTDict kvs) = cls (Call [] kvs)"
| "instantiate cls (PTOther v) = cls (Call [v] [])"

fun bulk_complete_loop ::
  "('v call_args \<Rightarrow> error + 't) \<Rightarrow> ('t \<Rightarrow> (error + bool) \<times> warning list)
    \<Rightarrow> 'v parameter_tuple list \<Rightarrow> 'v parameter_tuple list
    \<Rightarrow> (error + 'v parameter_tuple list) \<times> warning list"
where
  "bulk_complete_loop cls compl generated_tuples [] = (Inr generated_tuples, [])"
| "bulk_complete_loop cls compl generated_tuples (parameter_tuple # rest) =
     (case instantiate cls parameter_tuple of
        Inl e \<Rightarrow> (Inl e, [])
      | Inr t \<Rightarrow>
          (case compl t of
             (Inl e, ws) \<Rightarrow> (Inl e, ws)
           | (Inr b, ws) \<Rightarrow>
               (case bulk_complete_loop cls compl
                       (if b then generated_tuples @ [parameter_tuple] else generated_tuples) rest
                of (res, ws') \<Rightarrow> (res, ws @ ws'))))"

definition MixinNaiveBulkComplete_bulk_complete ::
  "('v call_args \<Rightarrow> error + 't) \<Rightarrow> ('t \<Rightarrow> (error + bool) \<times> warning list)
    \<Rightarrow> 'v parameter_tuple list \<Rightarrow> (error + 'v parameter_tuple list) \<times> warning list"
where
  "MixinNaiveBulkComplete_bulk_complete cls compl parameter_tuples =
     bulk_complete_loop cls compl [] parameter_tuples"

text \<open>
  The instance constructed from a tuple has \<^verbatim>\<open>complete()\<close> returning \<^verbatim>\<open>True\<close>; and the
  construction and the \<^verbatim>\<open>complete()\<close> of the instance both return.
\<close>

definition instance_complete ::
  "('v call_args \<Rightarrow> error + 't) \<Rightarrow> ('t \<Rightarrow> (error + bool) \<times> warning list)
    \<Rightarrow> 'v parameter_tuple \<Rightarrow> bool"
where
  "instance_complete cls compl pt =
     (case instantiate cls pt of Inl e \<Rightarrow> False | Inr t \<Rightarrow> fst (compl t) = Inr True)"

definition instance_returns ::
  "('v call_args \<Rightarrow> error + 't) \<Rightarrow> ('t \<Rightarrow> (error + bool) \<times> warning list)
    \<Rightarrow> 'v parameter_tuple \<Rightarrow> bool"
where
  "instance_returns cls compl pt =
     (case instantiate cls pt of Inl e \<Rightarrow> False | Inr t \<Rightarrow> (\<exists>b. fst (compl t) = Inr b))"

section \<open>Task identity\<close>

text \<open>
  A Python string is a list of characters; a character is a code point below 256. Strings
  are ordered as Python orders them: by code point, lexicographically. A dict is the list
  of its items in insertion order, with distinct keys.
  \<^verbatim>\<open>
  TASK_ID_INCLUDE_PARAMS = 3
  TASK_ID_TRUNCATE_PARAMS = 16
  TASK_ID_TRUNCATE_HASH = 10
  TASK_ID_INVALID_CHAR_REGEX = re.compile(r'[^A-Za-z0-9_]')
  \<close>
\<close>

definition TASK_ID_INCLUDE_PARAMS :: nat where
  "TASK_ID_INCLUDE_PARAMS = 3"

definition TASK_ID_TRUNCATE_PARAMS :: nat where
  "TASK_ID_TRUNCATE_PARAMS = 16"

definition TASK_ID_TRUNCATE_HASH :: nat where
  "TASK_ID_TRUNCATE_HASH = 10"

text \<open>
  \<open>valid_char\<close> is the character class \<^verbatim>\<open>[A-Za-z0-9_]\<close>; the regular expression matches
  every single character outside it, and \<^verbatim>\<open>sub\<close> replaces each match by \<open>repl\<close>.
\<close>

definition valid_char :: "char \<Rightarrow> bool" where
  "valid_char c =
     ((CHR ''A'' \<le> c \<and> c \<le> CHR ''Z'') \<or> (CHR ''a'' \<le> c \<and> c \<le> CHR ''z'')
      \<or> (CHR ''0'' \<le> c \<and> c \<le> CHR ''9'') \<or> c = CHR ''_'')"

definition TASK_ID_INVALID_CHAR_REGEX_sub :: "string \<Rightarrow> string \<Rightarrow> string" where
  "TASK_ID_INVALID_CHAR_REGEX_sub repl s = concat (map (\<lambda>c. if valid_char c then [c] else repl) s)"

text \<open>\<^verbatim>\<open>sep.join(xs)\<close>.\<close>

fun join :: "string \<Rightarrow> string list \<Rightarrow> string" where
  "join sep [] = []"
| "join sep [x] = x"
| "join sep (x # y # ys) = x @ sep @ join sep (y # ys)"

text \<open>
  \<^verbatim>\<open>json.dumps(params, separators=(',', ':'), sort_keys=True)\<close> on a dict from strings to
  strings, as the standard library encodes it: the items sorted by key, each key and value
  a string literal, \<^verbatim>\<open>:\<close> between key and value, \<^verbatim>\<open>,\<close> between items, no white space.
  In a string literal the quote, the backslash and the control characters with a short
  form are escaped with a backslash, every other character outside the printable ASCII
  range as \<^verbatim>\<open>u00\<close> and two lower-case hexadecimal digits after a backslash.
\<close>

definition hex_digit :: "nat \<Rightarrow> char" where
  "hex_digit n = ''0123456789abcdef'' ! (n mod 16)"

definition json_escape :: "char \<Rightarrow> string" where
  "json_escape c =
     (if c = CHR 0x22 then [CHR 0x5C, CHR 0x22]
      else if c = CHR 0x5C then [CHR 0x5C, CHR 0x5C]
      else if c = CHR 0x0A then [CHR 0x5C, CHR ''n'']
      else if c = CHR 0x0D then [CHR 0x5C, CHR ''r'']
      else if c = CHR 0x09 then [CHR 0x5C, CHR ''t'']
      else if c = CHR 0x0C then [CHR 0x5C, CHR ''f'']
      else if c = CHR 0x08 then [CHR 0x5C, CHR ''b'']
      else if CHR 0x20 \<le> c \<and> c \<le> CHR 0x7E then [c]
      else [CHR 0x5C, CHR ''u'', CHR ''0'', CHR ''0'',
            hex_digit (of_char c div 16), hex_digit (of_char c mod 16)])"

definition json_string :: "string \<Rightarrow> string" where
  "json_string s = [CHR 0x22] @ concat (map json_escape s) @ [CHR 0x22]"

definition json_dumps :: "(string \<times> string) list \<Rightarrow> string" where
  "json_dumps params =
     ''{'' @ join '','' (map (\<lambda>(k, v). json_string k @ '':'' @ json_string v)
                          (sort_key fst params)) @ ''}''"

text \<open>\<^verbatim>\<open>d[k]\<close> on a dict, and the generator \<^verbatim>\<open>(d[p] for p in ps)\<close> consumed in order.\<close>

definition getitem :: "('k \<times> 'v) list \<Rightarrow> 'k \<Rightarrow> error + 'v" where
  "getitem d k = (case map_of d k of None \<Rightarrow> Inl KeyError | Some v \<Rightarrow> Inr v)"

fun getitems :: "('k \<times> 'v) list \<Rightarrow> 'k list \<Rightarrow> error + 'v list" where
  "getitems d [] = Inr []"
| "getitems d (p # ps) =
     (case getitem d p of
        Inl e \<Rightarrow> Inl e
      | Inr v \<Rightarrow> (case getitems d ps of Inl e \<Rightarrow> Inl e | Inr vs \<Rightarrow> Inr (v # vs)))"

text \<open>
  \<^verbatim>\<open>
  def task_id_str(task_family, params):
      param_str = json.dumps(params, separators=(',', ':'), sort_keys=True)
      param_hash = hashlib.new('md5', param_str.encode('utf-8'), usedforsecurity=False).hexdigest()

      param_summary = '_'.join(p[:TASK_ID_TRUNCATE_PARAMS]
                               for p in (params[p] for p in sorted(params)[:TASK_ID_INCLUDE_PARAMS]))
      param_summary = TASK_ID_INVALID_CHAR_REGEX.sub('_', param_summary)

      return '{}_{}_{}'.format(task_family, param_summary, param_hash[:TASK_ID_TRUNCATE_HASH])
  \<close>
  \<open>md5_hexdigest\<close> stands for the MD5 digest of \<^verbatim>\<open>hashlib\<close>, in hexadecimal, of the encoded
  string: a parameter of the model.
\<close>

definition task_id_str :: "(string \<Rightarrow> string) \<Rightarrow> string \<Rightarrow> (string \<times> string) list \<Rightarrow> error + string" where
  "task_id_str md5_hexdigest task_family params =
     (let param_str = json_dumps params;
          param_hash = md5_hexdigest param_str
      in case getitems params (take TASK_ID_INCLUDE_PARAMS (sort (map fst params))) of
           Inl e \<Rightarrow> Inl e
         | Inr vs \<Rightarrow>
             (let param_summary = join ''_'' (map (take TASK_ID_TRUNCATE_PARAMS) vs);
                  param_summary = TASK_ID_INVALID_CHAR_REGEX_sub ''_'' param_summary
              in Inr (task_family @ ''_'' @ param_summary @ ''_''
                      @ take TASK_ID_TRUNCATE_HASH param_hash)))"

text \<open>
  The specification's words. The parameter summary: the values of the first 3 keys in
  lexicographic order, each truncated to 16 characters, joined with underscores, every
  character outside \<^verbatim>\<open>[A-Za-z0-9_]\<close> replaced by an underscore. The hash prefix: the first 10
  characters of the digest of the compact encoding with sorted keys. The id:
  \<^verbatim>\<open>{family}_{param_summary}_{hash_prefix}\<close>.
\<close>

definition spec_param_summary :: "(string \<times> string) list \<Rightarrow> string" where
  "spec_param_summary params =
     map (\<lambda>c. if valid_char c then c else CHR ''_'')
       (join ''_'' (map (\<lambda>kv. take 16 (snd kv)) (take 3 (sort_key fst params))))"

definition spec_hash_prefix :: "(string \<Rightarrow> string) \<Rightarrow> (string \<times> string) list \<Rightarrow> string" where
  "spec_hash_prefix md5_hexdigest params = take 10 (md5_hexdigest (json_dumps params))"

definition spec_task_id :: "(string \<Rightarrow> string) \<Rightarrow> string \<Rightarrow> (string \<times> string) list \<Rightarrow> string" where
  "spec_task_id md5_hexdigest family params =
     family @ ''_'' @ spec_param_summary params @ ''_'' @ spec_hash_prefix md5_hexdigest params"

section \<open>Task definitions and instances\<close>

text \<open>
  Modelled from the spec: the module \<^verbatim>\<open>simplui.parameter\<close>, which declares
  \<^verbatim>\<open>ParameterVisibility\<close>, is not among the sources. The specification gives a parameter a
  visibility that is one of PUBLIC, PRIVATE and HIDDEN.
\<close>

datatype ParameterVisibility = PUBLIC | HIDDEN | PRIVATE

text \<open>
  Modelled from the spec: the class \<^verbatim>\<open>Parameter\<close> of \<^verbatim>\<open>simplui.parameter\<close> is not among the
  sources. The specification gives a parameter a \<^verbatim>\<open>significant\<close> flag, a visibility and a
  serialization that depends on its type; these are the attributes that \<^verbatim>\<open>to_str_params\<close>
  reads. \<open>'v\<close> is the type of parameter values.
\<close>

record 'v Parameter =
  significant :: bool
  visibility :: ParameterVisibility
  serialize :: "'v \<Rightarrow> string"

text \<open>
  A task definition (a subclass of \<^verbatim>\<open>Task\<close>): its identity as a class object, its
  \<^verbatim>\<open>__name__\<close> and \<^verbatim>\<open>__module__\<close>, its two namespace attributes (\<^verbatim>\<open>task_namespace\<close> is
  \<^verbatim>\<open>'__not_user_specified'\<close> unless the definition sets it) and the list that
  \<^verbatim>\<open>get_params()\<close> returns: the declared parameters in declaration order, their names
  distinct.
\<close>

record 'v task_class =
  class_id :: nat
  class_name :: string
  class_module :: string
  task_namespace :: "string option"
  namespace_at_class_time :: "string option"
  get_params :: "(string \<times> 'v Parameter) list"

text \<open>
  \<^verbatim>\<open>
  @classmethod
  def get_task_namespace(cls):
      if cls.task_namespace != cls.__not_user_specified:
          return cls.task_namespace
      elif cls._namespace_at_class_time == _SAME_AS_PYTHON_MODULE:
          return cls.__module__
      return cls._namespace_at_class_time

  @classmethod
  def get_task_family(cls):
      if not cls.get_task_namespace():
          return cls.__name__
      else:
          return "{}.{}".format(cls.get_task_namespace(), cls.__name__)
  \<close>
\<close>

definition get_task_namespace :: "'v task_class \<Rightarrow> string option" where
  "get_task_namespace c =
     (if task_namespace c \<noteq> Some ''__not_user_specified'' then task_namespace c
      else if namespace_at_class_time c = Some ''_same_as_python_module'' then Some (class_module c)
      else namespace_at_class_time c)"

definition get_task_family :: "'v task_class \<Rightarrow> string" where
  "get_task_family c =
     (case get_task_namespace c of
        None \<Rightarrow> class_name c
      | Some ns \<Rightarrow> if ns = [] then class_name c else ns @ ''.'' @ class_name c)"

text \<open>
  A task instance: its class, \<^verbatim>\<open>param_kwargs\<close>, \<^verbatim>\<open>task_id\<close> and the hash that \<^verbatim>\<open>__init__\<close>
  stores. \<open>dict_of\<close> is \<^verbatim>\<open>dict(pairs)\<close>: a later pair replaces the value of an equal key.
\<close>

record 'v Task =
  task_cls :: "'v task_class"
  param_kwargs :: "(string \<times> 'v) list"
  task_id :: string
  Task__hash :: int

definition dict_of :: "('k \<times> 'v) list \<Rightarrow> ('k \<times> 'v) list" where
  "dict_of kvs = foldl (\<lambda>d kv. AList.update (fst kv) (snd kv) d) [] kvs"

text \<open>
  \<^verbatim>\<open>
  def to_str_params(self, only_significant=False, only_public=False):
      params_str = {}
      params = dict(self.get_params())
      for param_name, param_value in self.param_kwargs.items():
          if (((not only_significant) or params[param_name].significant)
                  and ((not only_public) or params[param_name].visibility == ParameterVisibility.PUBLIC)
                  and params[param_name].visibility != ParameterVisibility.PRIVATE):
              params_str[param_name] = params[param_name].serialize(param_value)
      return params_str
  \<close>
  The method reads the class and \<^verbatim>\<open>param_kwargs\<close> of \<^verbatim>\<open>self\<close>, which are its arguments here.
\<close>

fun to_str_params_loop ::
  "(string \<times> 'v Parameter) list \<Rightarrow> bool \<Rightarrow> bool \<Rightarrow> (string \<times> string) list
    \<Rightarrow> (string \<times> 'v) list \<Rightarrow> error + (string \<times> string) list"
where
  "to_str_params_loop params only_significant only_public params_str [] = Inr params_str"
| "to_str_params_loop params only_significant only_public params_str
     ((param_name, param_value) # rest) =
     (case getitem params param_name of
        Inl e \<Rightarrow> Inl e
      | Inr p \<Rightarrow>
          if ((\<not> only_significant) \<or> significant p)
             \<and> ((\<not> only_public) \<or> visibility p = PUBLIC)
             \<and> visibility p \<noteq> PRIVATE
          then to_str_params_loop params only_significant only_public
                 (AList.update param_name (serialize p param_value) params_str) rest
          else to_str_params_loop params only_significant only_public params_str rest)"

definition to_str_params ::
  "'v task_class \<Rightarrow> (string \<times> 'v) list \<Rightarrow> bool \<Rightarrow> bool \<Rightarrow> error + (string \<times> string) list"
where
  "to_str_params c kwargs only_significant only_public =
     to_str_params_loop (dict_of (get_params c)) only_significant only_public [] kwargs"

text \<open>
  \<^verbatim>\<open>
  def __init__(self, *args, **kwargs):
      params = self.get_params()
      param_values = self.get_param_values(params, args, kwargs)
      for key, value in param_values:
          setattr(self, key, value)
      self.param_kwargs = dict(param_values)
      self._warn_on_wrong_param_types()
      self.task_id = task_id_str(self.get_task_family(), self.to_str_params(only_significant=True, only_public=True))
      self.__hash = hash(self.task_id)
      ...

  def __hash__(self):
      return self.__hash

  def __eq__(self, other):
      return self.__class__ == other.__class__ and self.task_id == other.task_id
  \<close>
  \<open>param_values\<close> is the list that \<^verbatim>\<open>get_param_values\<close> returned, one pair for each declared
  parameter in the order of \<^verbatim>\<open>get_params()\<close>; a construction that raised there has no
  instance. \<^verbatim>\<open>_warn_on_wrong_param_types\<close> only emits warnings. \<open>hash_str\<close> is the builtin \<^verbatim>\<open>hash\<close> on strings. Two class objects are equal when
  they are the same object.
\<close>

definition Task_init ::
  "(string \<Rightarrow> string) \<Rightarrow> (string \<Rightarrow> int) \<Rightarrow> 'v task_class \<Rightarrow> (string \<times> 'v) list
    \<Rightarrow> error + 'v Task"
where
  "Task_init md5_hexdigest hash_str c param_values =
     (let kwargs = dict_of param_values in
      case to_str_params c kwargs True True of
        Inl e \<Rightarrow> Inl e
      | Inr params_str \<Rightarrow>
          (case task_id_str md5_hexdigest (get_task_family c) params_str of
             Inl e \<Rightarrow> Inl e
           | Inr tid \<Rightarrow>
               Inr \<lparr>task_cls = c, param_kwargs = kwargs, task_id = tid, Task__hash = hash_str tid\<rparr>))"

definition Task_hash :: "'v Task \<Rightarrow> int" where
  "Task_hash self = Task__hash self"

definition Task_eq :: "'v Task \<Rightarrow> 'v Task \<Rightarrow> bool" where
  "Task_eq self other =
     (class_id (task_cls self) = class_id (task_cls other) \<and> task_id self = task_id other)"

section \<open>Flow\<close>

text \<open>
  A Python value that can be a name: a string, or any other value. A task object as
  \<^verbatim>\<open>Flow\<close> sees it: the value of its \<^verbatim>\<open>name\<close> attribute, \<open>None\<close> when the object has no such
  attribute, and the rest of the instance. Objects live in a heap and are referred to by
  address, so that an assignment to an attribute is seen through every reference to the
  object; an object is a task instance or something else.
\<close>

datatype 'w pyval = Str string | Val 'w

record ('w, 'i) task_obj =
  name :: "'w pyval option"
  inst :: 'i

datatype ('w, 'i) obj = TaskObj "('w, 'i) task_obj" | OtherObj

type_synonym ('w, 'i) heap = "nat \<Rightarrow> ('w, 'i) obj"

text \<open>
  The object that \<^verbatim>\<open>Task.__init__\<close> leaves. The loop
  \<^verbatim>\<open>for key, value in param_values: setattr(self, key, value)\<close> sets one attribute for each
  declared parameter, and the other attributes that \<^verbatim>\<open>__init__\<close> sets are \<^verbatim>\<open>param_kwargs\<close>,
  \<^verbatim>\<open>task_id\<close>, the hash and the three hooks: the object has an attribute \<^verbatim>\<open>name\<close> exactly
  when a parameter of that name is declared, and its value is the value of that parameter
  (no class in the source defines \<^verbatim>\<open>name\<close> at class level).
\<close>

definition new_task_obj :: "'w pyval Task \<Rightarrow> ('w, 'w pyval Task) task_obj" where
  "new_task_obj T = \<lparr>task_obj.name = map_of (param_kwargs T) ''name'', inst = T\<rparr>"

text \<open>
  \<^verbatim>\<open>
  class Flow:
      def __init__(self, iname=''):
          self.taskset = {}
          self.name = iname
          self.autoRename = True
  \<close>
  The dict \<^verbatim>\<open>taskset\<close> is the list of its items in insertion order, with distinct keys; its
  values are references to task objects.
\<close>

record 'w Flow =
  taskset :: "('w pyval \<times> nat) list"
  name :: string
  autoRename :: bool

definition Flow_init :: "string \<Rightarrow> 'w Flow" where
  "Flow_init iname = \<lparr>taskset = [], name = iname, autoRename = True\<rparr>"

text \<open>
  The decimal digits of a number, as the f-string formats \<^verbatim>\<open>incval\<close>, and the string
  \<^verbatim>\<open>f"{self.name}_{incval}"\<close>.
\<close>

fun str_of_nat :: "nat \<Rightarrow> string" where
  "str_of_nat n =
     (if n < 10 then [''0123456789'' ! n]
      else str_of_nat (n div 10) @ [''0123456789'' ! (n mod 10)])"

declare str_of_nat.simps [simp del]

definition unique_name :: "string \<Rightarrow> nat \<Rightarrow> 'w pyval" where
  "unique_name flow_name incval = Str (flow_name @ ''_'' @ str_of_nat incval)"

text \<open>
  \<^verbatim>\<open>
  def getUniqueName(self, ctask):
      incval = 0
      newname = ctask.name
      while newname in self.taskset and incval < 100000:
          newname = f"{self.name}_{incval}"
          incval += 1
      if newname not in self.taskset:
          return newname
      else:
          raise ValueError(f"Could not find a unique name for task {ctask.name} in flow {self.name}")
  \<close>
\<close>

function getUniqueName_loop ::
  "('w pyval \<times> nat) list \<Rightarrow> string \<Rightarrow> 'w pyval \<Rightarrow> nat \<Rightarrow> 'w pyval" where
  "getUniqueName_loop ts fname newname incval =
     (if newname \<in> set (map fst ts) \<and> incval < 100000
      then getUniqueName_loop ts fname (unique_name fname incval) (incval + 1)
      else newname)"
  by pat_completeness auto
termination
  by (relation "measure (\<lambda>(ts, fname, newname, incval). 100000 - incval)") auto

declare getUniqueName_loop.simps [simp del]

definition getUniqueName :: "'w Flow \<Rightarrow> ('w, 'i) task_obj \<Rightarrow> error + 'w pyval" where
  "getUniqueName self ctask =
     (case task_obj.name ctask of
        None \<Rightarrow> Inl AttributeError
      | Some n \<Rightarrow>
          (let newname = getUniqueName_loop (taskset self) (Flow.name self) n 0 in
           if newname \<notin> set (map fst (taskset self)) then Inr newname else Inl ValueError))"

text \<open>
  \<^verbatim>\<open>
  def add(self, intask):
      if not isinstance(intask, Task):
          raise TypeError("Only simplui.Task instances can be added to a Flow")
      if self.autoRename:
          intask.name = self.getUniqueName(intask)
      elif intask.name in self.taskset:
          raise ValueError("Task with name '{}' already exists in the flow".format(intask.name))
      self.taskset[intask.name] = intask
  \<close>
  \<open>intask\<close> is the address of the argument in the heap \<open>h\<close>. The assignment to
  \<^verbatim>\<open>intask.name\<close> updates the object in the heap, so an entry of the flow that already
  refers to the same object sees the new name. \<open>setitem\<close> is the dict assignment: it
  replaces the value of a key that is present and appends a new key. On success the new
  heap and the new flow are returned; an exception is raised before anything is changed.
\<close>

definition setitem :: "'w Flow \<Rightarrow> 'w pyval \<Rightarrow> nat \<Rightarrow> 'w Flow" where
  "setitem self k intask = self\<lparr>taskset := AList.update k intask (taskset self)\<rparr>"

definition Flow_add ::
  "('w, 'i) heap \<Rightarrow> 'w Flow \<Rightarrow> nat \<Rightarrow> error + (('w, 'i) heap \<times> 'w Flow)" where
  "Flow_add h self intask =
     (case h intask of
        OtherObj \<Rightarrow> Inl TypeError
      | TaskObj t \<Rightarrow>
          if autoRename self then
            (case getUniqueName self t of
               Inl e \<Rightarrow> Inl e
             | Inr newname \<Rightarrow>
                 Inr (h(intask := TaskObj (t\<lparr>task_obj.name := Some newname\<rparr>)),
                      setitem self newname intask))
          else
            (case task_obj.name t of
               None \<Rightarrow> Inl AttributeError
             | Some n \<Rightarrow>
                 if n \<in> set (map fst (taskset self)) then Inl ValueError
                 else Inr (h, setitem self n intask)))"

text \<open>
  \<^verbatim>\<open>
  def __iter__(self):
      return iter(self.tasks)
  \<close>
  The attributes of a \<^verbatim>\<open>Flow\<close> instance are the three that \<^verbatim>\<open>__init__\<close> sets and the
  methods of the class (those that every Python object has are left out: none is called
  \<^verbatim>\<open>tasks\<close>); reading any other attribute raises \<^verbatim>\<open>AttributeError\<close>. \<^verbatim>\<open>iter\<close> of a dict
  yields its keys, of a string its characters; a bool and a method are not iterable.
\<close>

datatype 'w attr =
    TasksetAttr "('w pyval \<times> nat) list"
  | NameAttr string
  | AutoRenameAttr bool
  | MethodAttr

definition Flow_getattr :: "'w Flow \<Rightarrow> string \<Rightarrow> error + 'w attr" where
  "Flow_getattr self a =
     (if a = ''taskset'' then Inr (TasksetAttr (taskset self))
      else if a = ''name'' then Inr (NameAttr (Flow.name self))
      else if a = ''autoRename'' then Inr (AutoRenameAttr (autoRename self))
      else if a \<in> {''__init__'', ''getUniqueName'', ''add'', ''__iter__''} then Inr MethodAttr
      else Inl AttributeError)"

fun py_iter :: "'w attr \<Rightarrow> error + 'w pyval list" where
  "py_iter (TasksetAttr ts) = Inr (map fst ts)"
| "py_iter (NameAttr s) = Inr (map (\<lambda>c. Str [c]) s)"
| "py_iter (AutoRenameAttr b) = Inl TypeError"
| "py_iter MethodAttr = Inl TypeError"

definition Flow_iter :: "'w Flow \<Rightarrow> error + 'w pyval list" where
  "Flow_iter self = (case Flow_getattr self ''tasks'' of Inl e \<Rightarrow> Inl e | Inr v \<Rightarrow> py_iter v)"

section \<open>Properties of flatten\<close>

lemma flatten_items_concat:
  "flatten_items flat kvs = flat @ concat (map (\<lambda>kv. flatten (snd kv)) kvs)"
  by (induction kvs arbitrary: flat) auto

lemma flatten_iter_concat: "flatten_iter flat xs = flat @ concat (map flatten xs)"
  by (induction xs arbitrary: flat) auto

text \<open>
  Claim C3. \<open>flatten\<close> returns the empty list for \<^verbatim>\<open>None\<close>; the string itself, alone, for a
  string (its characters are not visited); for a mapping the concatenation of \<open>flatten\<close>
  over its values in iteration order; for a list, a tuple or any other iterable the
  concatenation of \<open>flatten\<close> over its elements in order; and the object itself, alone, for
  a task or any other object that is not iterable. In particular
  \<^verbatim>\<open>flatten("foo") == ["foo"]\<close> and \<^verbatim>\<open>flatten([task_a, {"x": task_b}]) == [task_a, task_b]\<close>.
\<close>

theorem flatten_spec:
  "flatten PyNone = []
   \<and> flatten (PyStr s) = [PyStr s]
   \<and> flatten (PyDict c kvs) = concat (map (\<lambda>kv. flatten (snd kv)) kvs)
   \<and> flatten (PySeq q xs) = concat (map flatten xs)
   \<and> flatten (PyIter xs) = concat (map flatten xs)
   \<and> flatten (PyTask t) = [PyTask t]
   \<and> flatten (PyAtom a) = [PyAtom a]
   \<and> flatten (PyStr ''foo'') = [PyStr ''foo'']
   \<and> flatten (PySeq ListSeq [PyTask task_a, PyDict PlainDict [(''x'', PyTask task_b)]])
       = [PyTask task_a, PyTask task_b]"
  by (simp add: flatten_items_concat flatten_iter_concat)

section \<open>Properties of getpaths\<close>









section \<open>Properties of completeness\<close>

lemma all_exists_True_iff:
  "all_exists ex outputs = Inr True \<longleftrightarrow> list_all (target_exists ex) outputs"
  by (induction ex outputs rule: all_exists.induct)
    (auto simp: target_exists_def split: option.splits)

lemma all_exists_targets:
  "list_all (is_target ex) outputs \<Longrightarrow>
     all_exists ex outputs = Inr (list_all (target_exists ex) outputs)"
  by (induction ex outputs rule: all_exists.induct)
    (auto simp: target_exists_def is_target_def split: option.splits)

text \<open>
  Claim C5. For a task that does not override \<^verbatim>\<open>complete()\<close>: when \<^verbatim>\<open>flatten(output())\<close> is
  empty the call returns \<^verbatim>\<open>False\<close> and emits exactly one warning; otherwise it emits no
  warning and returns \<^verbatim>\<open>True\<close> if and only if every output in \<^verbatim>\<open>flatten(output())\<close> has
  \<^verbatim>\<open>exists()\<close> true; and when every output has an \<^verbatim>\<open>exists()\<close> method the call returns, with
  that truth value.
\<close>

theorem Task_complete_spec:
  "(flatten (out self) = [] \<longrightarrow> Task_complete out ex self = (Inr False, [NoOutputsWarning]))
   \<and> (flatten (out self) \<noteq> [] \<longrightarrow>
        snd (Task_complete out ex self) = []
        \<and> (fst (Task_complete out ex self) = Inr True
             \<longleftrightarrow> list_all (target_exists ex) (flatten (out self)))
        \<and> (list_all (is_target ex) (flatten (out self)) \<longrightarrow>
             fst (Task_complete out ex self)
               = Inr (list_all (target_exists ex) (flatten (out self)))))"
  by (simp add: Task_complete_def Let_def all_exists_True_iff all_exists_targets)

theorem Task_complete_spec_witness:
  "flatten (PySeq ListSeq [] :: (string, nat, int) pyobj) = []
   \<and> Task_complete (\<lambda>t::nat. PySeq ListSeq [] :: (string, nat, int) pyobj) (\<lambda>a. Some (0 < a)) 7
       = (Inr False, [NoOutputsWarning])
   \<and> flatten (PyDict PlainDict [(''x'', PyAtom (1::int)), (''y'', PySeq TupleSeq [PyAtom 2])]
        :: (string, nat, int) pyobj) \<noteq> []
   \<and> list_all (is_target (\<lambda>a. Some (0 < a)))
        (flatten (PyDict PlainDict [(''x'', PyAtom (1::int)), (''y'', PySeq TupleSeq [PyAtom 2])]
          :: (string, nat, int) pyobj))
   \<and> Task_complete
        (\<lambda>t::nat. PyDict PlainDict [(''x'', PyAtom (1::int)), (''y'', PySeq TupleSeq [PyAtom 2])])
        (\<lambda>a. Some (0 < a)) 7
       = (Inr True, [])"
  using Task_complete_spec
      [of "\<lambda>t::nat. PySeq ListSeq [] :: (string, nat, int) pyobj" 7 "\<lambda>a. Some (0 < a)"]
    Task_complete_spec
      [of "\<lambda>t::nat. PyDict PlainDict [(''x'', PyAtom (1::int)), (''y'', PySeq TupleSeq [PyAtom 2])]"
          7 "\<lambda>a. Some (0 < a)"]
  by (simp add: is_target_def target_exists_def prod_eq_iff)

lemma all_complete_True_iff:
  "fst (all_complete compl rs) = Inr True \<longleftrightarrow> list_all (task_complete compl) rs"
  by (induction compl rs rule: all_complete.induct)
    (auto simp: task_complete_def split: prod.splits sum.splits)

lemma all_complete_returns:
  "list_all (task_returns compl) rs \<Longrightarrow>
     fst (all_complete compl rs) = Inr (list_all (task_complete compl) rs)"
  by (induction compl rs rule: all_complete.induct)
    (auto simp: task_complete_def task_returns_def split: prod.splits sum.splits)

lemma all_complete_warnings:
  "set (snd (all_complete compl rs)) \<subseteq> (\<Union>r \<in> set rs. set (emitted_by compl r))"
proof (induction compl rs rule: all_complete.induct)
  case (2 compl r rs)
  show ?case
  proof (cases "compl r")
    case (Pair res ws)
    show ?thesis
    proof (cases res)
      case (Inl e)
      with Pair show ?thesis by simp
    next
      case (Inr b)
      show ?thesis
      proof (cases b)
        case True
        with 2 [OF Pair [symmetric] Inr] Pair Inr show ?thesis
          by (auto split: prod.splits)
      next
        case False
        with Pair Inr show ?thesis by simp
      qed
    qed
  qed
qed simp_all

text \<open>
  Claim C6. \<^verbatim>\<open>WrapperTask.complete()\<close> returns \<^verbatim>\<open>True\<close> if and only if every element of
  \<^verbatim>\<open>flatten(requires())\<close> is a task whose \<^verbatim>\<open>complete()\<close> returns \<^verbatim>\<open>True\<close>; when the
  \<^verbatim>\<open>complete()\<close> of every requirement returns, the wrapper's returns too, with that truth
  value. The wrapper never looks at its own output and emits no warning of its own: every
  warning of the call comes from the \<^verbatim>\<open>complete()\<close> of a requirement, and with no
  requirement the call returns \<^verbatim>\<open>True\<close> with no warning.
\<close>

theorem WrapperTask_complete_spec:
  "(fst (WrapperTask_complete req compl w) = Inr True
      \<longleftrightarrow> list_all (task_complete compl) (flatten (req w)))
   \<and> (list_all (task_returns compl) (flatten (req w)) \<longrightarrow>
        fst (WrapperTask_complete req compl w)
          = Inr (list_all (task_complete compl) (flatten (req w))))
   \<and> set (snd (WrapperTask_complete req compl w))
        \<subseteq> (\<Union>r \<in> set (flatten (req w)). set (emitted_by compl r))
   \<and> (flatten (req w) = [] \<longrightarrow> WrapperTask_complete req compl w = (Inr True, []))"
  by (simp add: WrapperTask_complete_def all_complete_True_iff all_complete_returns
      all_complete_warnings)

theorem WrapperTask_complete_spec_witness:
  "list_all (task_returns (\<lambda>t::nat. (Inr (t \<noteq> 3), [])))
      (flatten (PySeq ListSeq [PyTask 1, PyDict PlainDict [(''x'', PyTask 2)]]
        :: (string, nat, int) pyobj))
   \<and> fst (WrapperTask_complete
        (\<lambda>t::nat. PySeq ListSeq [PyTask 1, PyDict PlainDict [(''x'', PyTask 2)]]
          :: (string, nat, int) pyobj)
        (\<lambda>t. (Inr (t \<noteq> 3), [])) 0) = Inr True
   \<and> flatten (PySeq ListSeq [] :: (string, nat, int) pyobj) = []
   \<and> WrapperTask_complete (\<lambda>t::nat. PySeq ListSeq [] :: (string, nat, int) pyobj)
        (\<lambda>t. (Inr (t \<noteq> 3), [])) 0 = (Inr True, [])"
  using WrapperTask_complete_spec
      [of "\<lambda>t::nat. PySeq ListSeq [PyTask 1, PyDict PlainDict [(''x'', PyTask 2)]]
            :: (string, nat, int) pyobj"
          "\<lambda>t. (Inr (t \<noteq> 3), [])" 0]
    WrapperTask_complete_spec
      [of "\<lambda>t::nat. PySeq ListSeq [] :: (string, nat, int) pyobj" "\<lambda>t. (Inr (t \<noteq> 3), [])" 0]
  by (auto simp: task_returns_def task_complete_def)

lemma bulk_complete_loop_filter:
  "list_all (instance_returns cls compl) pts \<Longrightarrow>
     fst (bulk_complete_loop cls compl gen pts) = Inr (gen @ filter (instance_complete cls compl) pts)"
proof (induction pts arbitrary: gen)
  case Nil
  show ?case by simp
next
  case (Cons pt pts)
  from Cons.prems obtain t b ws where t: "instantiate cls pt = Inr t" and b: "compl t = (Inr b, ws)"
    by (auto simp: instance_returns_def split: sum.splits) (metis prod.collapse)
  from Cons.prems have rest: "list_all (instance_returns cls compl) pts" by simp
  have ic: "instance_complete cls compl pt = b"
    using t b by (simp add: instance_complete_def)
  show ?case
    using Cons.IH [OF rest, of "gen @ [pt]"] Cons.IH [OF rest, of gen] t b ic
    by (cases b) (simp_all add: split_beta)
qed

lemma bulk_complete_loop_Inr:
  "fst (bulk_complete_loop cls compl gen pts) = Inr ys \<Longrightarrow>
     ys = gen @ filter (instance_complete cls compl) pts"
proof (induction pts arbitrary: gen)
  case Nil
  then show ?case by simp
next
  case (Cons pt pts)
  from Cons.prems obtain t b ws where t: "instantiate cls pt = Inr t" and b: "compl t = (Inr b, ws)"
    by (auto split: sum.splits prod.splits)
  have ic: "instance_complete cls compl pt = b"
    using t b by (simp add: instance_complete_def)
  from Cons.prems t b
  have "fst (bulk_complete_loop cls compl (if b then gen @ [pt] else gen) pts) = Inr ys"
    by (cases b) (simp_all add: split_beta)
  from Cons.IH [OF this] ic show ?case by simp
qed

text \<open>
  Claim C7. The default \<^verbatim>\<open>bulk_complete\<close> raises \<^verbatim>\<open>BulkCompleteNotImplementedError\<close> on every
  argument, a proper subclass of \<^verbatim>\<open>NotImplementedError\<close>: a handler for it does not catch a
  plain \<^verbatim>\<open>NotImplementedError\<close>. The naive mixin's \<^verbatim>\<open>bulk_complete\<close>, when every
  construction and every \<^verbatim>\<open>complete()\<close> returns, returns exactly the tuples whose instance
  is complete (in the order of the input, which is more than the claim asks); and whenever
  it returns, the tuples it returns are those, each as often as in the input.
\<close>

theorem bulk_complete_spec:
  "Task_bulk_complete parameter_tuples = Inl BulkCompleteNotImplementedError
   \<and> issubclass BulkCompleteNotImplementedError NotImplementedError
   \<and> \<not> issubclass NotImplementedError BulkCompleteNotImplementedError
   \<and> (list_all (instance_returns cls compl) pts \<longrightarrow>
        fst (MixinNaiveBulkComplete_bulk_complete cls compl pts)
          = Inr (filter (instance_complete cls compl) pts))
   \<and> (fst (MixinNaiveBulkComplete_bulk_complete cls compl pts) = Inr ys \<longrightarrow>
        mset ys = filter_mset (instance_complete cls compl) (mset pts))"
  using bulk_complete_loop_filter [of cls compl pts "[]"]
    bulk_complete_loop_Inr [of cls compl "[]" pts ys]
  by (auto simp: Task_bulk_complete_def issubclass_def MixinNaiveBulkComplete_bulk_complete_def)

theorem bulk_complete_spec_witness:
  "list_all
     (instance_returns (\<lambda>c. case c of Call vs kvs \<Rightarrow> Inr (sum_list vs + sum_list (map snd kvs)))
        (\<lambda>t::nat. (Inr (even t), [])))
     [PTList [1, 1], PTOther 3, PTDict [(''n'', 4)], PTTuple [5]]
   \<and> fst (MixinNaiveBulkComplete_bulk_complete
        (\<lambda>c. case c of Call vs kvs \<Rightarrow> Inr (sum_list vs + sum_list (map snd kvs)))
        (\<lambda>t::nat. (Inr (even t), []))
        [PTList [1, 1], PTOther 3, PTDict [(''n'', 4)], PTTuple [5]])
      = Inr [PTList [1, 1], PTDict [(''n'', 4)]]
   \<and> mset [PTList [1, 1], PTDict [(''n'', 4)]]
      = filter_mset
          (instance_complete
            (\<lambda>c. case c of Call vs kvs \<Rightarrow> Inr (sum_list vs + sum_list (map snd kvs)))
            (\<lambda>t::nat. (Inr (even t), [])))
          (mset [PTList [1, 1], PTOther 3, PTDict [(''n'', 4)], PTTuple [5]])"
proof -
  let ?cls = "(\<lambda>c. case c of Call vs kvs \<Rightarrow> Inr (sum_list vs + sum_list (map snd kvs)))
    :: nat call_args \<Rightarrow> error + nat"
  let ?compl = "(\<lambda>t. (Inr (even t), [])) :: nat \<Rightarrow> (error + bool) \<times> warning list"
  let ?pts = "[PTList [1, 1], PTOther 3, PTDict [(''n'', 4)], PTTuple [5]] :: nat parameter_tuple list"
  have r: "list_all (instance_returns ?cls ?compl) ?pts"
    by (auto simp: instance_returns_def)
  have f: "filter (instance_complete ?cls ?compl) ?pts = [PTList [1, 1], PTDict [(''n'', 4)]]"
    by (simp add: instance_complete_def)
  note spec = bulk_complete_spec
    [where cls = ?cls and compl = ?compl and pts = ?pts
       and ys = "[PTList [1, 1], PTDict [(''n'', 4)]]" and parameter_tuples = "[]::nat list"]
  from spec r f
  have 1: "fst (MixinNaiveBulkComplete_bulk_complete ?cls ?compl ?pts)
      = Inr [PTList [1, 1], PTDict [(''n'', 4)]]"
    by simp
  with spec have 2: "mset [PTList [1, 1], PTDict [(''n'', 4)]]
      = filter_mset (instance_complete ?cls ?compl) (mset ?pts)"
    by blast
  from r 1 2 show ?thesis by blast
qed

section \<open>Properties of the task id\<close>

lemma update_fresh: "k \<notin> set (map fst al) \<Longrightarrow> AList.update k v al = al @ [(k, v)]"
  by (induction al) auto

lemma map_sort_key: "map f (sort_key f xs) = sort (map f xs)"
  by (rule properties_for_sort [symmetric]) simp_all

lemma map_of_distinct_snd:
  "distinct (map fst ps) \<Longrightarrow> kv \<in> set ps \<Longrightarrow> map_of ps (fst kv) = Some (snd kv)"
  by (cases kv) simp

lemma getitems_present:
  "distinct (map fst d) \<Longrightarrow> set kvs \<subseteq> set d \<Longrightarrow> getitems d (map fst kvs) = Inr (map snd kvs)"
  by (induction kvs) (auto simp: getitem_def map_of_distinct_snd)

lemma regex_sub_map:
  "TASK_ID_INVALID_CHAR_REGEX_sub [r] s = map (\<lambda>c. if valid_char c then c else r) s"
  by (induction s) (auto simp: TASK_ID_INVALID_CHAR_REGEX_sub_def)

lemma sorted_items_values:
  assumes "distinct (map fst params)"
  shows "getitems params (take n (sort (map fst params)))
    = Inr (map snd (take n (sort_key fst params)))"
proof -
  have "take n (sort (map fst params)) = map fst (take n (sort_key fst params))"
    by (simp add: map_sort_key [symmetric] take_map)
  moreover have "set (take n (sort_key fst params)) \<subseteq> set params"
    using set_take_subset [of n "sort_key fst params"] by simp
  ultimately show ?thesis
    using getitems_present [OF assms] by simp
qed

lemma filter_key_distinct:
  "distinct (map fst xs) \<Longrightarrow> k \<in> set xs \<Longrightarrow> filter (\<lambda>x. fst k = fst x) xs = [k]"
proof (induction xs)
  case Nil
  then show ?case by simp
next
  case (Cons x xs)
  show ?case
  proof (cases "k = x")
    case True
    have "filter (\<lambda>y. fst x = fst y) xs = []"
      using Cons.prems(1) by (auto simp: filter_empty_conv)
    with True show ?thesis by simp
  next
    case False
    with Cons.prems have kxs: "k \<in> set xs" by simp
    have "fst k \<noteq> fst x"
    proof
      assume "fst k = fst x"
      with kxs have "fst x \<in> fst ` set xs" by (metis imageI)
      with Cons.prems(1) show False by simp
    qed
    with kxs show ?thesis using Cons by simp
  qed
qed

lemma sort_key_dict_eq:
  assumes "distinct (map fst xs)" "distinct (map fst ys)" "map_of xs = map_of ys"
  shows "sort_key fst xs = sort_key fst ys"
proof (rule properties_for_sort_key)
  have set_eq: "set xs = set ys"
    using assms map_of_inject_set by blast
  have dx: "distinct xs" and dy: "distinct ys"
    using assms(1,2) distinct_map by blast+
  show "mset (sort_key fst ys) = mset xs"
    using set_eq dx dy set_eq_iff_mset_eq_distinct by fastforce
  show "sorted (map fst (sort_key fst ys))" by simp
  fix k assume "k \<in> set (sort_key fst ys)"
  then have ky: "k \<in> set ys" by simp
  then have kx: "k \<in> set xs" using set_eq by simp
  have dsy: "distinct (map fst (sort_key fst ys))"
    using assms(2) by (simp add: map_sort_key)
  have "filter (\<lambda>x. fst k = fst x) (sort_key fst ys) = [k]"
    using filter_key_distinct [OF dsy] ky by simp
  moreover have "filter (\<lambda>x. fst k = fst x) xs = [k]"
    using filter_key_distinct [OF assms(1) kx] .
  ultimately show "filter (\<lambda>x. fst k = fst x) (sort_key fst ys) = filter (\<lambda>x. fst k = fst x) xs"
    by simp
qed

lemma task_id_str_eq_spec:
  assumes "distinct (map fst params)"
  shows "task_id_str md5_hex family params = Inr (spec_task_id md5_hex family params)"
  using sorted_items_values [OF assms, of 3]
  by (simp add: task_id_str_def spec_task_id_def spec_param_summary_def spec_hash_prefix_def
      TASK_ID_INCLUDE_PARAMS_def TASK_ID_TRUNCATE_PARAMS_def TASK_ID_TRUNCATE_HASH_def
      regex_sub_map take_map comp_def)

lemma spec_task_id_dict_eq:
  assumes "distinct (map fst xs)" "distinct (map fst ys)" "map_of xs = map_of ys"
  shows "spec_task_id md5_hex family xs = spec_task_id md5_hex family ys"
  using sort_key_dict_eq [OF assms]
  by (simp add: spec_task_id_def spec_param_summary_def spec_hash_prefix_def json_dumps_def)

text \<open>
  Claim C1. For every family name and every dict from parameter names to serialized
  values, \<open>task_id_str\<close> returns the family, the parameter summary and the hash prefix
  joined by underscores, as the specification words them; the summary holds only
  characters of \<^verbatim>\<open>[A-Za-z0-9_]\<close>; and the id depends on the family and on the mapping only:
  two dicts that map the same keys to the same values, in whatever insertion order, get
  the same id.
\<close>

theorem task_id_str_spec:
  "distinct (map fst params) \<Longrightarrow>
     task_id_str md5_hex family params
       = Inr (family @ ''_'' @ spec_param_summary params @ ''_''
              @ spec_hash_prefix md5_hex params)
     \<and> list_all valid_char (spec_param_summary params)
     \<and> (distinct (map fst params') \<and> map_of params' = map_of params \<longrightarrow>
          task_id_str md5_hex family params' = task_id_str md5_hex family params)"
  using task_id_str_eq_spec [of params md5_hex family] task_id_str_eq_spec [of params' md5_hex family]
    spec_task_id_dict_eq [of params' params md5_hex family]
  by (auto simp: spec_task_id_def spec_param_summary_def list_all_iff valid_char_def)

theorem task_id_str_spec_witness:
  "distinct (map fst [(''n'', ''10''), (''date'', ''2020-01-01''), (''path'', ''/tmp/some/very/long/path'')])
   \<and> task_id_str (\<lambda>s. ''0123456789abcdef0123456789abcdef'') ''ns.MyTask''
        [(''n'', ''10''), (''date'', ''2020-01-01''), (''path'', ''/tmp/some/very/long/path'')]
      = Inr ''ns.MyTask_2020_01_01_10__tmp_some_very_l_0123456789''
   \<and> distinct (map fst [(''path'', ''/tmp/some/very/long/path''), (''n'', ''10''), (''date'', ''2020-01-01'')])
   \<and> map_of [(''path'', ''/tmp/some/very/long/path''), (''n'', ''10''), (''date'', ''2020-01-01'')]
      = map_of [(''n'', ''10''), (''date'', ''2020-01-01''), (''path'', ''/tmp/some/very/long/path'')]
   \<and> task_id_str (\<lambda>s. ''0123456789abcdef0123456789abcdef'') ''ns.MyTask''
        [(''path'', ''/tmp/some/very/long/path''), (''n'', ''10''), (''date'', ''2020-01-01'')]
      = Inr ''ns.MyTask_2020_01_01_10__tmp_some_very_l_0123456789''"
proof -
  let ?P = "[(''n'', ''10''), (''date'', ''2020-01-01''), (''path'', ''/tmp/some/very/long/path'')]"
  let ?P' = "[(''path'', ''/tmp/some/very/long/path''), (''n'', ''10''), (''date'', ''2020-01-01'')]"
  let ?md = "(\<lambda>s. ''0123456789abcdef0123456789abcdef'') :: string \<Rightarrow> string"
  have d: "distinct (map fst ?P)" and d': "distinct (map fst ?P')"
    by simp_all
  have m: "map_of ?P' = map_of ?P"
    using map_of_inject_set [OF d' d] by auto
  have s: "sort_key fst ?P
      = [(''date'', ''2020-01-01''), (''n'', ''10''), (''path'', ''/tmp/some/very/long/path'')]"
    by simp
  have v: "spec_param_summary ?P = ''2020_01_01_10__tmp_some_very_l''"
    unfolding spec_param_summary_def s by (simp add: valid_char_def)
  have h: "spec_hash_prefix ?md ?P = ''0123456789''"
    by (simp add: spec_hash_prefix_def)
  from task_id_str_spec [OF d, where md5_hex = ?md and family = "''ns.MyTask''" and params' = ?P']
    d d' m v h
  show ?thesis by simp
qed

section \<open>Properties of task equality\<close>

lemma foldl_update_fresh:
  "distinct (map fst (acc @ kvs)) \<Longrightarrow>
     foldl (\<lambda>d kv. AList.update (fst kv) (snd kv) d) acc kvs = acc @ kvs"
proof (induction kvs arbitrary: acc)
  case Nil
  show ?case by simp
next
  case (Cons kv kvs)
  from Cons.prems have fresh: "fst kv \<notin> set (map fst acc)" by auto
  have "AList.update (fst kv) (snd kv) acc = acc @ [kv]"
    using update_fresh [OF fresh] by simp
  moreover from Cons.prems have "distinct (map fst ((acc @ [kv]) @ kvs))" by simp
  ultimately show ?case
    using Cons.IH [of "acc @ [kv]"] by simp
qed

lemma dict_of_distinct: "distinct (map fst kvs) \<Longrightarrow> dict_of kvs = kvs"
  using foldl_update_fresh [of "[]" kvs] by (simp add: dict_of_def)

lemma to_str_params_loop_agree:
  "list_all2 (\<lambda>a b. fst a = fst b \<and>
      (\<forall>p. map_of ps (fst a) = Some p \<longrightarrow> significant p \<longrightarrow> visibility p = PUBLIC \<longrightarrow> snd a = snd b))
     kw1 kw2 \<Longrightarrow>
   to_str_params_loop ps True True acc kw1 = to_str_params_loop ps True True acc kw2"
proof (induction kw1 kw2 arbitrary: acc rule: list_all2_induct)
  case Nil
  show ?case by simp
next
  case (Cons a kw1 b kw2)
  obtain n v1 where a: "a = (n, v1)" by (cases a)
  obtain n' v2 where b: "b = (n', v2)" by (cases b)
  from Cons.hyps(1) a b have n: "n' = n" by simp
  show ?case
  proof (cases "map_of ps n")
    case None
    with a b n show ?thesis by (simp add: getitem_def)
  next
    case (Some p)
    with Cons.hyps(1) a b have "significant p \<Longrightarrow> visibility p = PUBLIC \<Longrightarrow> v1 = v2"
      by simp
    with Some a b n Cons.IH show ?thesis
      by (auto simp: getitem_def)
  qed
qed

lemma to_str_params_loop_returns:
  "set (map fst kw) \<subseteq> set (map fst ps) \<Longrightarrow> distinct (map fst acc) \<Longrightarrow>
     \<exists>r. to_str_params_loop ps os op acc kw = Inr r \<and> distinct (map fst r)"
proof (induction kw arbitrary: acc)
  case Nil
  then show ?case by simp
next
  case (Cons a kw)
  obtain n v where a: "a = (n, v)" by (cases a)
  with Cons.prems(1) have "n \<in> fst ` set ps" by simp
  then obtain p where p: "map_of ps n = Some p"
    by (metis domD dom_map_of_conv_image_fst)
  from Cons.prems(1) have sub: "set (map fst kw) \<subseteq> set (map fst ps)" by simp
  have d: "distinct (map fst (AList.update n (serialize p v) acc))"
    using Cons.prems(2) by (simp add: distinct_update)
  show ?case
    using Cons.IH [OF sub d] Cons.IH [OF sub Cons.prems(2)] a p
    by (simp add: getitem_def)
qed

lemma agree_list_all2:
  assumes "distinct (map fst ps)" "map fst pv1 = map fst ps" "map fst pv2 = map fst ps"
    and "\<forall>np \<in> set ps. significant (snd np) \<and> visibility (snd np) = PUBLIC
          \<longrightarrow> map_of pv1 (fst np) = map_of pv2 (fst np)"
  shows "list_all2 (\<lambda>a b. fst a = fst b \<and>
      (\<forall>p. map_of ps (fst a) = Some p \<longrightarrow> significant p \<longrightarrow> visibility p = PUBLIC \<longrightarrow> snd a = snd b))
     pv1 pv2"
proof -
  have len: "length pv1 = length pv2"
    using assms(2,3) by (metis length_map)
  have d1: "distinct (map fst pv1)" and d2: "distinct (map fst pv2)"
    using assms(1,2,3) by simp_all
  have "fst (pv1 ! i) = fst (pv2 ! i) \<and>
      (\<forall>p. map_of ps (fst (pv1 ! i)) = Some p \<longrightarrow> significant p \<longrightarrow> visibility p = PUBLIC
          \<longrightarrow> snd (pv1 ! i) = snd (pv2 ! i))" if i: "i < length pv1" for i
  proof -
    have f: "fst (pv1 ! i) = fst (pv2 ! i)"
      using i len assms(2,3) by (metis nth_map)
    have m1: "map_of pv1 (fst (pv1 ! i)) = Some (snd (pv1 ! i))"
      using d1 i by (simp add: map_of_distinct_snd)
    have m2: "map_of pv2 (fst (pv2 ! i)) = Some (snd (pv2 ! i))"
      using d2 i len by (simp add: map_of_distinct_snd)
    have "snd (pv1 ! i) = snd (pv2 ! i)"
      if "map_of ps (fst (pv1 ! i)) = Some p" "significant p" "visibility p = PUBLIC" for p
    proof -
      from that(1) have "(fst (pv1 ! i), p) \<in> set ps" by (rule map_of_SomeD)
      with assms(4) that(2,3) have "map_of pv1 (fst (pv1 ! i)) = map_of pv2 (fst (pv1 ! i))"
        by fastforce
      with m1 m2 f show ?thesis by simp
    qed
    with f show ?thesis by blast
  qed
  with len show ?thesis
    by (simp add: list_all2_conv_all_nth)
qed

lemma Task_init_agree:
  assumes "distinct (map fst (get_params c))"
    and "map fst pv1 = map fst (get_params c)" "map fst pv2 = map fst (get_params c)"
    and "\<forall>np \<in> set (get_params c). significant (snd np) \<and> visibility (snd np) = PUBLIC
          \<longrightarrow> map_of pv1 (fst np) = map_of pv2 (fst np)"
  shows "\<exists>A B. Task_init md5_hex hash_str c pv1 = Inr A \<and> Task_init md5_hex hash_str c pv2 = Inr B
      \<and> task_cls A = c \<and> task_cls B = c \<and> task_id A = task_id B \<and> Task__hash A = Task__hash B"
proof -
  let ?ps = "get_params c"
  have d1: "dict_of pv1 = pv1" and d2: "dict_of pv2 = pv2" and dp: "dict_of ?ps = ?ps"
    using assms(1,2,3) by (simp_all add: dict_of_distinct)
  have eq: "to_str_params_loop ?ps True True [] pv1 = to_str_params_loop ?ps True True [] pv2"
    using to_str_params_loop_agree [OF agree_list_all2 [OF assms]] .
  obtain r where r: "to_str_params_loop ?ps True True [] pv1 = Inr r" and dr: "distinct (map fst r)"
    using to_str_params_loop_returns [of pv1 ?ps "[]" True True] assms(2) by auto
  obtain tid where tid: "task_id_str md5_hex (get_task_family c) r = Inr tid"
    using task_id_str_eq_spec [OF dr] by blast
  show ?thesis
    using r eq tid d1 d2 dp by (simp add: Task_init_def to_str_params_def)
qed

text \<open>
  Claim C2. Two task instances are equal if and only if they have the same class and
  equal \<^verbatim>\<open>task_id\<close> strings; the hash of a constructed instance is the hash of its
  \<^verbatim>\<open>task_id\<close>; and two constructions of the same definition whose parameter values agree
  on every significant and public parameter both succeed, with equal \<^verbatim>\<open>task_id\<close>, equal
  instances and equal hashes.
\<close>

theorem Task_eq_spec:
  "(Task_eq self other \<longleftrightarrow> class_id (task_cls self) = class_id (task_cls other) \<and> task_id self = task_id other)
   \<and> (Task_init md5_hex hash_str c pv = Inr T \<longrightarrow> Task_hash T = hash_str (task_id T))
   \<and> (distinct (map fst (get_params c))
        \<and> map fst pva = map fst (get_params c) \<and> map fst pvb = map fst (get_params c)
        \<and> (\<forall>np \<in> set (get_params c). significant (snd np) \<and> visibility (snd np) = PUBLIC
              \<longrightarrow> map_of pva (fst np) = map_of pvb (fst np))
      \<longrightarrow> (\<exists>A B. Task_init md5_hex hash_str c pva = Inr A
               \<and> Task_init md5_hex hash_str c pvb = Inr B
               \<and> task_id A = task_id B \<and> Task_eq A B \<and> Task_hash A = Task_hash B))"
proof -
  have h: "Task_hash T = hash_str (task_id T)" if "Task_init md5_hex hash_str c pv = Inr T"
    using that by (auto simp: Task_init_def Task_hash_def Let_def split: sum.splits)
  have e: "\<exists>A B. Task_init md5_hex hash_str c pva = Inr A
               \<and> Task_init md5_hex hash_str c pvb = Inr B
               \<and> task_id A = task_id B \<and> Task_eq A B \<and> Task_hash A = Task_hash B"
    if "distinct (map fst (get_params c))"
      "map fst pva = map fst (get_params c)" "map fst pvb = map fst (get_params c)"
      "\<forall>np \<in> set (get_params c). significant (snd np) \<and> visibility (snd np) = PUBLIC
              \<longrightarrow> map_of pva (fst np) = map_of pvb (fst np)"
    using Task_init_agree [OF that, of md5_hex hash_str]
    by (auto simp: Task_eq_def Task_hash_def)
  show ?thesis
    using h e by (simp add: Task_eq_def)
qed

theorem Task_eq_spec_witness:
  "distinct (map fst (get_params
        \<lparr>class_id = 1, class_name = ''MyTask'', class_module = ''pkg.mod'',
           task_namespace = Some ''__not_user_specified'', namespace_at_class_time = None,
           get_params =
             [(''date'', \<lparr>significant = True, visibility = PUBLIC, serialize = \<lambda>v. v\<rparr>),
              (''debug'', \<lparr>significant = False, visibility = PUBLIC, serialize = \<lambda>v. v\<rparr>)]\<rparr>))
   \<and> map fst [(''date'', ''2020-01-01''), (''debug'', ''yes'')]
      = map fst (get_params
        \<lparr>class_id = 1, class_name = ''MyTask'', class_module = ''pkg.mod'',
           task_namespace = Some ''__not_user_specified'', namespace_at_class_time = None,
           get_params =
             [(''date'', \<lparr>significant = True, visibility = PUBLIC, serialize = \<lambda>v. v\<rparr>),
              (''debug'', \<lparr>significant = False, visibility = PUBLIC, serialize = \<lambda>v. v\<rparr>)]\<rparr>)
   \<and> map fst [(''date'', ''2020-01-01''), (''debug'', ''no'')]
      = map fst (get_params
        \<lparr>class_id = 1, class_name = ''MyTask'', class_module = ''pkg.mod'',
           task_namespace = Some ''__not_user_specified'', namespace_at_class_time = None,
           get_params =
             [(''date'', \<lparr>significant = True, visibility = PUBLIC, serialize = \<lambda>v. v\<rparr>),
              (''debug'', \<lparr>significant = False, visibility = PUBLIC, serialize = \<lambda>v. v\<rparr>)]\<rparr>)
   \<and> (\<exists>A B.
        Task_init (\<lambda>s. ''0123456789abcdef0123456789abcdef'') (\<lambda>s. int (length s))
          \<lparr>class_id = 1, class_name = ''MyTask'', class_module = ''pkg.mod'',
           task_namespace = Some ''__not_user_specified'', namespace_at_class_time = None,
           get_params =
             [(''date'', \<lparr>significant = True, visibility = PUBLIC, serialize = \<lambda>v. v\<rparr>),
              (''debug'', \<lparr>significant = False, visibility = PUBLIC, serialize = \<lambda>v. v\<rparr>)]\<rparr>
          [(''date'', ''2020-01-01''), (''debug'', ''yes'')] = Inr A
      \<and> Task_init (\<lambda>s. ''0123456789abcdef0123456789abcdef'') (\<lambda>s. int (length s))
          \<lparr>class_id = 1, class_name = ''MyTask'', class_module = ''pkg.mod'',
           task_namespace = Some ''__not_user_specified'', namespace_at_class_time = None,
           get_params =
             [(''date'', \<lparr>significant = True, visibility = PUBLIC, serialize = \<lambda>v. v\<rparr>),
              (''debug'', \<lparr>significant = False, visibility = PUBLIC, serialize = \<lambda>v. v\<rparr>)]\<rparr>
          [(''date'', ''2020-01-01''), (''debug'', ''no'')] = Inr B
      \<and> task_id A = ''MyTask_2020_01_01_0123456789''
      \<and> Task_hash A = 28
      \<and> task_id A = task_id B \<and> Task_eq A B \<and> Task_hash A = Task_hash B)"
proof -
  let ?c = "\<lparr>class_id = 1, class_name = ''MyTask'', class_module = ''pkg.mod'',
           task_namespace = Some ''__not_user_specified'', namespace_at_class_time = None,
           get_params =
             [(''date'', \<lparr>significant = True, visibility = PUBLIC, serialize = \<lambda>v. v\<rparr>),
              (''debug'', \<lparr>significant = False, visibility = PUBLIC, serialize = \<lambda>v. v\<rparr>)]\<rparr>"
  let ?md = "(\<lambda>s. ''0123456789abcdef0123456789abcdef'') :: string \<Rightarrow> string"
  let ?h = "(\<lambda>s. int (length s)) :: string \<Rightarrow> int"
  let ?pv1 = "[(''date'', ''2020-01-01''), (''debug'', ''yes'')]"
  let ?pv2 = "[(''date'', ''2020-01-01''), (''debug'', ''no'')]"
  have hyps: "distinct (map fst (get_params ?c))
      \<and> map fst ?pv1 = map fst (get_params ?c) \<and> map fst ?pv2 = map fst (get_params ?c)
      \<and> (\<forall>np \<in> set (get_params ?c). significant (snd np) \<and> visibility (snd np) = PUBLIC
              \<longrightarrow> map_of ?pv1 (fst np) = map_of ?pv2 (fst np))"
    by simp
  have tid: "task_id A = ''MyTask_2020_01_01_0123456789''"
    if "Task_init ?md ?h ?c ?pv1 = Inr A" for A
    using that
    by (auto simp: Task_init_def to_str_params_def dict_of_def getitem_def get_task_family_def
        get_task_namespace_def task_id_str_def TASK_ID_INCLUDE_PARAMS_def
        TASK_ID_TRUNCATE_PARAMS_def TASK_ID_TRUNCATE_HASH_def TASK_ID_INVALID_CHAR_REGEX_sub_def
        valid_char_def)
  from Task_eq_spec [where c = ?c and pva = ?pv1 and pvb = ?pv2 and md5_hex = ?md
      and hash_str = ?h] hyps
  obtain A B where ab: "Task_init ?md ?h ?c ?pv1 = Inr A" "Task_init ?md ?h ?c ?pv2 = Inr B"
    "task_id A = task_id B" "Task_eq A B" "Task_hash A = Task_hash B"
    by blast
  have t: "task_id A = ''MyTask_2020_01_01_0123456789''"
    using tid ab(1) by blast
  have "Task_hash A = ?h (task_id A)"
    using Task_eq_spec [where c = ?c and pv = ?pv1 and T = A and md5_hex = ?md and hash_str = ?h]
      ab(1) by blast
  with t have h: "Task_hash A = 28"
    by simp
  show ?thesis
    using hyps ab t h by blast
qed

section \<open>Properties of Flow\<close>

text \<open>
  Claim C9 says that iterating a \<^verbatim>\<open>Flow\<close> yields its stored tasks in insertion order. The
  code reads \<^verbatim>\<open>self.tasks\<close>, an attribute that no \<^verbatim>\<open>Flow\<close> has (the tasks are stored in
  \<^verbatim>\<open>self.taskset\<close>): after a task has been added, iterating the flow raises
  \<^verbatim>\<open>AttributeError\<close>.
\<close>

theorem Flow_iter_AttributeError:
  "Flow_add (\<lambda>a. TaskObj \<lparr>task_obj.name = Some (Str ''a'' :: unit pyval), inst = ()\<rparr>)
       (Flow_init ''f'') 0
     = Inr ((\<lambda>a. TaskObj \<lparr>task_obj.name = Some (Str ''a''), inst = ()\<rparr>)
              (0 := TaskObj \<lparr>task_obj.name = Some (Str ''a''), inst = ()\<rparr>),
            \<lparr>taskset = [(Str ''a'', 0)], name = ''f'', autoRename = True\<rparr>)
   \<and> Flow_iter \<lparr>taskset = [(Str ''a'' :: unit pyval, 0)], name = ''f'', autoRename = True\<rparr>
     = Inl AttributeError"
  by (simp add: Flow_add_def Flow_init_def getUniqueName_def setitem_def Flow_iter_def
      Flow_getattr_def getUniqueName_loop.simps [of "[]"])

lemma getUniqueName_loop_step:
  "newname \<in> set (map fst ts) \<Longrightarrow> incval < 100000 \<Longrightarrow>
     getUniqueName_loop ts fname newname incval
       = getUniqueName_loop ts fname (unique_name fname incval) (Suc incval)"
  by (subst getUniqueName_loop.simps) simp

lemma getUniqueName_loop_stop:
  "newname \<notin> set (map fst ts) \<or> \<not> incval < 100000 \<Longrightarrow>
     getUniqueName_loop ts fname newname incval = newname"
  by (subst getUniqueName_loop.simps) auto

lemma getUniqueName_loop_least:
  assumes "newname \<in> set (map fst ts)" "k \<le> i" "i < 100000"
    and "\<forall>j. k \<le> j \<and> j < i \<longrightarrow> unique_name fname j \<in> set (map fst ts)"
    and "unique_name fname i \<notin> set (map fst ts)"
  shows "getUniqueName_loop ts fname newname k = unique_name fname i"
  using assms
proof (induction "i - k" arbitrary: k newname)
  case 0
  then have "k = i" by simp
  with 0 show ?case
    by (simp add: getUniqueName_loop_step getUniqueName_loop_stop)
next
  case (Suc d)
  then have lt: "k < i" by simp
  with Suc.prems have cand: "unique_name fname k \<in> set (map fst ts)" by simp
  have "getUniqueName_loop ts fname (unique_name fname k) (Suc k) = unique_name fname i"
    using Suc.hyps(1) [of "Suc k" "unique_name fname k"] Suc.hyps(2) Suc.prems cand lt
    by auto
  with Suc.prems lt show ?case
    by (simp add: getUniqueName_loop_step)
qed

lemma getUniqueName_loop_exhausted:
  assumes "newname \<in> set (map fst ts)" "k \<le> 100000"
    and "\<forall>j. k \<le> j \<and> j < 100000 \<longrightarrow> unique_name fname j \<in> set (map fst ts)"
  shows "getUniqueName_loop ts fname newname k \<in> set (map fst ts)"
  using assms
proof (induction "100000 - k" arbitrary: k newname)
  case 0
  then show ?case by (simp add: getUniqueName_loop_stop)
next
  case (Suc d)
  then have lt: "k < 100000" by simp
  with Suc.prems have cand: "unique_name fname k \<in> set (map fst ts)" by simp
  have "getUniqueName_loop ts fname (unique_name fname k) (Suc k) \<in> set (map fst ts)"
    using Suc.hyps(1) [of "Suc k" "unique_name fname k"] Suc.hyps(2) Suc.prems cand lt
    by auto
  with Suc.prems lt show ?case
    by (simp add: getUniqueName_loop_step)
qed

lemma getUniqueName_exhausted:
  assumes "task_obj.name t = Some n" "n \<in> set (map fst (taskset self))"
    and "\<forall>j. j < 100000 \<longrightarrow> unique_name (Flow.name self) j \<in> set (map fst (taskset self))"
  shows "getUniqueName self t = Inl ValueError"
  using assms getUniqueName_loop_exhausted [of n "taskset self" 0 "Flow.name self"]
  by (simp add: getUniqueName_def Let_def)

lemma foldl_update_keys:
  "set (map fst (foldl (\<lambda>d kv. AList.update (fst kv) (snd kv) d) acc kvs))
     = set (map fst acc) \<union> set (map fst kvs)"
  by (induction kvs arbitrary: acc) (auto simp: dom_update)

lemma dict_of_keys: "set (map fst (dict_of kvs)) = set (map fst kvs)"
  using foldl_update_keys [of "[]" kvs] by (simp add: dict_of_def)

lemma new_task_obj_name:
  assumes "Task_init md5_hex hash_str c pv = Inr T"
  shows "task_obj.name (new_task_obj T) = None \<longleftrightarrow> ''name'' \<notin> set (map fst pv)"
proof -
  from assms have "param_kwargs T = dict_of pv"
    by (auto simp: Task_init_def Let_def split: sum.splits)
  then have "set (map fst (param_kwargs T)) = set (map fst pv)"
    by (simp only: dict_of_keys)
  then show ?thesis
    by (simp add: new_task_obj_def map_of_eq_None_iff)
qed

lemma Flow_add_no_name:
  "g a = TaskObj t \<Longrightarrow> task_obj.name t = None \<Longrightarrow> autoRename fl \<Longrightarrow>
     getUniqueName fl t = Inl AttributeError \<and> Flow_add g fl a = Inl AttributeError"
  by (simp add: Flow_add_def getUniqueName_def)

text \<open>
  Claim C10. A new \<^verbatim>\<open>Flow\<close> has auto-rename enabled. For a task instance that
  \<^verbatim>\<open>Task.__init__\<close> constructed from a definition with no parameter called \<^verbatim>\<open>name\<close>, and
  more generally for every task object without a \<^verbatim>\<open>name\<close> attribute, \<^verbatim>\<open>add\<close> on a flow with
  auto-rename enabled raises \<^verbatim>\<open>AttributeError\<close> (not the \<^verbatim>\<open>TypeError\<close> or \<^verbatim>\<open>ValueError\<close> of
  the documented failures) and stores nothing. When the task has a name that is already a
  key of the flow, the name it gets is the flow's own name, an underscore and the least
  number \<open>i\<close> below 100000 for which that name is free, whatever the task's original name
  was; the object gets that name (also as seen through the entries that already refer to
  it) and a reference to it is stored under that name, after the entries already there.
\<close>

theorem Flow_add_name:
  "autoRename (Flow_init iname)
   \<and> (Task_init md5_hex hash_str c pv = Inr T \<and> ''name'' \<notin> set (map fst pv)
        \<and> h r = TaskObj (new_task_obj T) \<and> autoRename self \<longrightarrow>
        task_obj.name (new_task_obj T) = None
        \<and> Flow_add h self r = Inl AttributeError
        \<and> AttributeError \<notin> {TypeError, ValueError})
   \<and> (g a = TaskObj t \<and> task_obj.name t = None \<and> autoRename fl \<longrightarrow>
        getUniqueName fl t = Inl AttributeError
        \<and> Flow_add g fl a = Inl AttributeError)
   \<and> (g a = TaskObj t \<and> task_obj.name t = Some n \<and> n \<in> set (map fst (taskset fl))
        \<and> i < 100000 \<and> unique_name (Flow.name fl) i \<notin> set (map fst (taskset fl))
        \<and> (\<forall>j < i. unique_name (Flow.name fl) j \<in> set (map fst (taskset fl)))
      \<longrightarrow> getUniqueName fl t = Inr (Str (Flow.name fl @ ''_'' @ str_of_nat i))
        \<and> (autoRename fl \<longrightarrow>
             Flow_add g fl a
               = Inr (g(a := TaskObj (t\<lparr>task_obj.name :=
                                         Some (Str (Flow.name fl @ ''_'' @ str_of_nat i))\<rparr>)),
                      fl\<lparr>taskset := taskset fl
                            @ [(Str (Flow.name fl @ ''_'' @ str_of_nat i), a)]\<rparr>)))"
proof -
  have a: "getUniqueName fl t = Inl AttributeError \<and> Flow_add g fl a = Inl AttributeError"
    if "g a = TaskObj t" "task_obj.name t = None" "autoRename fl"
    using that by (rule Flow_add_no_name)
  have b: "getUniqueName fl t = Inr (unique_name (Flow.name fl) i)"
    if "task_obj.name t = Some n" "n \<in> set (map fst (taskset fl))" "i < 100000"
      "unique_name (Flow.name fl) i \<notin> set (map fst (taskset fl))"
      "\<forall>j < i. unique_name (Flow.name fl) j \<in> set (map fst (taskset fl))"
    using that getUniqueName_loop_least [of n "taskset fl" 0 i "Flow.name fl"]
    by (simp add: getUniqueName_def Let_def)
  have d: "Flow_add g fl a
      = Inr (g(a := TaskObj (t\<lparr>task_obj.name := Some (unique_name (Flow.name fl) i)\<rparr>)),
             fl\<lparr>taskset := taskset fl @ [(unique_name (Flow.name fl) i, a)]\<rparr>)"
    if "g a = TaskObj t" "getUniqueName fl t = Inr (unique_name (Flow.name fl) i)"
      "unique_name (Flow.name fl) i \<notin> set (map fst (taskset fl))" "autoRename fl"
    using that by (simp add: Flow_add_def setitem_def update_fresh)
  have e: "autoRename (Flow_init iname)"
    by (simp add: Flow_init_def)
  have f: "task_obj.name (new_task_obj T) = None \<and> Flow_add h self r = Inl AttributeError"
    if "Task_init md5_hex hash_str c pv = Inr T" "''name'' \<notin> set (map fst pv)"
      "h r = TaskObj (new_task_obj T)" "autoRename self"
  proof -
    have none: "task_obj.name (new_task_obj T) = None"
      using new_task_obj_name [OF that(1)] that(2) by simp
    from Flow_add_no_name [of h r "new_task_obj T" self, OF that(3) none that(4)] none
    show ?thesis by simp
  qed
  show ?thesis
    using a b d e f unfolding unique_name_def by blast
qed

theorem Flow_add_name_witness:
  "(\<exists>T. Task_init (\<lambda>s. ''0123456789abcdef0123456789abcdef'') (\<lambda>s. int (length s))
          \<lparr>class_id = 1, class_name = ''MyTask'', class_module = ''pkg.mod'',
           task_namespace = Some ''__not_user_specified'', namespace_at_class_time = None,
           get_params =
             [(''date'', \<lparr>significant = True, visibility = PUBLIC,
                          serialize = \<lambda>v. case v of Str x \<Rightarrow> x | Val u \<Rightarrow> ''unit''\<rparr>),
              (''debug'', \<lparr>significant = False, visibility = PUBLIC,
                           serialize = \<lambda>v. case v of Str x \<Rightarrow> x | Val u \<Rightarrow> ''unit''\<rparr>)]\<rparr>
          [(''date'', Str ''2020-01-01''), (''debug'', Val ())] = Inr T
      \<and> ''name'' \<notin> set (map fst [(''date'', Str ''2020-01-01''), (''debug'', Val ())])
      \<and> Flow_add (\<lambda>a. TaskObj (new_task_obj T)) (Flow_init ''f'') 0 = Inl AttributeError)
   \<and> Flow_add
        (\<lambda>a. if a = 0 then TaskObj \<lparr>task_obj.name = Some (Str ''a'' :: unit pyval), inst = ()\<rparr>
              else if a = 1 then TaskObj \<lparr>task_obj.name = Some (Str ''f_0''), inst = ()\<rparr>
              else if a = 2 then TaskObj \<lparr>task_obj.name = None, inst = ()\<rparr>
              else OtherObj)
        \<lparr>taskset = [(Str ''a'' :: unit pyval, 0), (Str ''f_0'', 1)], name = ''f'', autoRename = True\<rparr> 2
       = Inl AttributeError
   \<and> Flow_add
        (\<lambda>a. if a = 0 then TaskObj \<lparr>task_obj.name = Some (Str ''a'' :: unit pyval), inst = ()\<rparr>
              else if a = 1 then TaskObj \<lparr>task_obj.name = Some (Str ''f_0''), inst = ()\<rparr>
              else if a = 2 then TaskObj \<lparr>task_obj.name = None, inst = ()\<rparr>
              else OtherObj)
        \<lparr>taskset = [(Str ''a'' :: unit pyval, 0), (Str ''f_0'', 1)], name = ''f'', autoRename = True\<rparr> 0
       = Inr (((\<lambda>a. if a = 0 then TaskObj \<lparr>task_obj.name = Some (Str ''a'' :: unit pyval), inst = ()\<rparr>
              else if a = 1 then TaskObj \<lparr>task_obj.name = Some (Str ''f_0''), inst = ()\<rparr>
              else if a = 2 then TaskObj \<lparr>task_obj.name = None, inst = ()\<rparr>
              else OtherObj))
                (0 := TaskObj \<lparr>task_obj.name = Some (Str ''f_1''), inst = ()\<rparr>),
              \<lparr>taskset = [(Str ''a'', 0), (Str ''f_0'', 1), (Str ''f_1'', 0)],
                 name = ''f'', autoRename = True\<rparr>)"
proof -
  let ?c = "\<lparr>class_id = 1, class_name = ''MyTask'', class_module = ''pkg.mod'',
           task_namespace = Some ''__not_user_specified'', namespace_at_class_time = None,
           get_params =
             [(''date'', \<lparr>significant = True, visibility = PUBLIC,
                          serialize = \<lambda>v. case v of Str x \<Rightarrow> x | Val u \<Rightarrow> ''unit''\<rparr>),
              (''debug'', \<lparr>significant = False, visibility = PUBLIC,
                           serialize = \<lambda>v. case v of Str x \<Rightarrow> x | Val u \<Rightarrow> ''unit''\<rparr>)]\<rparr>"
  let ?md = "(\<lambda>s. ''0123456789abcdef0123456789abcdef'') :: string \<Rightarrow> string"
  let ?h = "(\<lambda>s. int (length s)) :: string \<Rightarrow> int"
  let ?pv = "[(''date'', Str ''2020-01-01''), (''debug'', Val ())] :: (string \<times> unit pyval) list"
  let ?g = "(\<lambda>a. if a = 0 then TaskObj \<lparr>task_obj.name = Some (Str ''a'' :: unit pyval), inst = ()\<rparr>
              else if a = 1 then TaskObj \<lparr>task_obj.name = Some (Str ''f_0''), inst = ()\<rparr>
              else if a = 2 then TaskObj \<lparr>task_obj.name = None, inst = ()\<rparr>
              else OtherObj)"
  let ?f = "\<lparr>taskset = [(Str ''a'' :: unit pyval, 0), (Str ''f_0'', 1)], name = ''f'', autoRename = True\<rparr>"
  obtain T where T: "Task_init ?md ?h ?c ?pv = Inr T"
    using Task_init_agree [of ?c ?pv ?pv ?md ?h] by auto
  have 1: "Flow_add (\<lambda>a. TaskObj (new_task_obj T)) (Flow_init ''f'') 0 = Inl AttributeError"
    using Flow_add_name [where c = ?c and pv = ?pv and T = T and md5_hex = ?md
        and hash_str = ?h and h = "\<lambda>a. TaskObj (new_task_obj T)" and r = 0
        and self = "Flow_init ''f''" and iname = "''f''"
        and g = ?g and fl = ?f and a = 2 and n = "Str ''a''" and i = 1
        and t = "\<lparr>task_obj.name = None, inst = ()\<rparr>"] T
    by auto
  have 2: "Flow_add ?g ?f 2 = Inl AttributeError"
    using Flow_add_name [where c = ?c and pv = ?pv and T = T and md5_hex = ?md
        and hash_str = ?h and h = "\<lambda>a. TaskObj (new_task_obj T)" and r = 0
        and self = "Flow_init ''f''" and iname = "''f''"
        and g = ?g and fl = ?f and a = 2 and n = "Str ''a''" and i = 1
        and t = "\<lparr>task_obj.name = None, inst = ()\<rparr>"]
    by auto
  have 3: "Flow_add ?g ?f 0
       = Inr (?g(0 := TaskObj \<lparr>task_obj.name = Some (Str ''f_1''), inst = ()\<rparr>),
              \<lparr>taskset = [(Str ''a'', 0), (Str ''f_0'', 1), (Str ''f_1'', 0)],
                 name = ''f'', autoRename = True\<rparr>)"
    using Flow_add_name [where c = ?c and pv = ?pv and T = T and md5_hex = ?md
        and hash_str = ?h and h = "\<lambda>a. TaskObj (new_task_obj T)" and r = 0
        and self = "Flow_init ''f''" and iname = "''f''"
        and g = ?g and fl = ?f and a = 0 and n = "Str ''a''" and i = 1
        and t = "\<lparr>task_obj.name = Some (Str ''a''), inst = ()\<rparr>"]
    by (auto simp: unique_name_def str_of_nat.simps [of 0] str_of_nat.simps [of 1]
        str_of_nat.simps [of "Suc 0"])
  have 4: "''name'' \<notin> set (map fst ?pv)"
    by simp
  from T 1 2 3 4 show ?thesis by blast
qed

end
